theory Spec2Isabelle
  imports
    Main
    "HOL-Library.AList"
    "HOL-Library.Char_ord"
    "HOL-Library.List_Lexorder"
    "HOL-Library.Product_Lexorder"
begin

section \<open>Namespace and schema-location resolution of python-stix (stix/utils/nsparser.py)\<close>

text \<open>
  The module is Python 2. Its state is a handful of dictionaries and sets that the
  methods of \<open>NamespaceInfo\<close> mutate in place; here every method takes the registry and
  returns the registry it leaves behind, together with its result or the exception it
  raised.

  A Python \<open>dict\<close> with string keys is an association list with distinct keys, and a
  Python \<open>set\<close> is a list without repetitions. Iteration follows the list. Python 2
  leaves the iteration order of both unspecified; the model fixes it to the order of
  insertion (a stored key keeps its place when its value is overwritten), and the
  dictionary literals of the source are listed in the order of the source text.
\<close>

subsection \<open>Dictionaries and sets\<close>

type_synonym 'v dict = "(string \<times> 'v) list"

text \<open>\<open>d.get(k)\<close>; \<open>None\<close> when the key is absent.\<close>

definition dict_get :: "'v dict \<Rightarrow> string \<Rightarrow> 'v option" where
  "dict_get d k = map_of d k"

text \<open>\<open>d[k] = v\<close>.\<close>

definition dict_set :: "'v dict \<Rightarrow> string \<Rightarrow> 'v \<Rightarrow> 'v dict" where
  "dict_set d k v = AList.update k v d"

text \<open>\<open>del d[k]\<close>, for a key that is present.\<close>

definition dict_del :: "'v dict \<Rightarrow> string \<Rightarrow> 'v dict" where
  "dict_del d k = AList.delete k d"

text \<open>\<open>d.update(other)\<close> and \<open>d.update(pairs)\<close>: every pair is stored in turn.\<close>

fun dict_update :: "'v dict \<Rightarrow> (string \<times> 'v) list \<Rightarrow> 'v dict" where
  "dict_update d [] = d"
| "dict_update d ((k, v) # rest) = dict_update (dict_set d k v) rest"

text \<open>\<open>dict(pairs)\<close>: a later pair overwrites an earlier one with the same key.\<close>

definition dict_of :: "(string \<times> 'v) list \<Rightarrow> 'v dict" where
  "dict_of pairs = dict_update [] pairs"

text \<open>\<open>k in d\<close> and \<open>d.keys()\<close>.\<close>

definition dict_keys :: "'v dict \<Rightarrow> string list" where
  "dict_keys d = map fst d"

definition dict_has :: "'v dict \<Rightarrow> string \<Rightarrow> bool" where
  "dict_has d k = (k \<in> set (dict_keys d))"

text \<open>\<open>s.add(x)\<close> and \<open>s.update(xs)\<close> on a set.\<close>

definition set_add :: "'a list \<Rightarrow> 'a \<Rightarrow> 'a list" where
  "set_add s x = (if x \<in> set s then s else s @ [x])"

fun set_update :: "'a list \<Rightarrow> 'a list \<Rightarrow> 'a list" where
  "set_update s [] = s"
| "set_update s (x # xs) = set_update (set_add s x) xs"

text \<open>Truth value of an attribute that is \<open>None\<close> or a string: \<open>None\<close> and the empty
  string are false.\<close>

fun truthy :: "string option \<Rightarrow> bool" where
  "truthy None = False"
| "truthy (Some v) = (v \<noteq> [])"

text \<open>\<open>text.split(":")\<close>.\<close>

fun split_colon :: "string \<Rightarrow> string list" where
  "split_colon [] = [[]]"
| "split_colon (c # cs) =
     (if c = CHR '':'' then [] # split_colon cs
      else (case split_colon cs of [] \<Rightarrow> [[c]] | p # ps \<Rightarrow> (c # p) # ps))"

text \<open>\<open>sep.join(parts)\<close>.\<close>

fun join :: "string \<Rightarrow> string list \<Rightarrow> string" where
  "join sep [] = []"
| "join sep [p] = p"
| "join sep (p # q # ps) = p @ sep @ join sep (q # ps)"

subsection \<open>The data model\<close>

text \<open>
  What the module reads of a class: whether it is a subclass of \<open>stix.Entity\<close> or
  \<open>cybox.Entity\<close>, and the class attributes \<open>_namespace\<close>, \<open>_XSI_NS\<close> and \<open>_XSI_TYPE\<close>
  as \<open>getattr(klass, name, None)\<close> returns them. The name tells two classes with the
  same attributes apart.
\<close>

record klass =
  klass_name :: string
  is_entity :: bool
  klass_namespace :: "string option"
  klass_XSI_NS :: "string option"
  klass_XSI_TYPE :: "string option"

text \<open>
  What \<open>collect\<close> reads of an entity: the method resolution order of its class, and the
  attributes \<open>__input_namespaces__\<close> and \<open>__input_schemalocations__\<close>, which only a
  parsed entity has (\<open>None\<close>: \<open>hasattr\<close> is false).
\<close>

record entity =
  mro :: "klass list"
  ent_input_namespaces :: "string dict option"
  ent_input_schemalocations :: "string dict option"

text \<open>
  \<open>_collected_namespaces\<close> is one Python dictionary: under the key \<open>None\<close> a set of
  namespaces that have no prefix yet, under every other key (a prefix) a namespace.
  \<open>no_alias\<close> is the value under \<open>None\<close>, and is \<open>None\<close> when that key is absent.
\<close>

record collected =
  no_alias :: "string list option"
  aliased :: "string dict"

record NamespaceInfo =
  collected_namespaces :: collected
  input_namespaces :: "string dict"
  input_schemalocs :: "string dict"
  collected_classes :: "klass list"
  finalized_namespaces :: "string dict option"
  finalized_schemalocs :: "string dict option"

text \<open>
  The exceptions. \<open>DuplicatePrefixError.__init__\<close> stores \<open>self.source_ns = source_ns,\<close>
  with a trailing comma, so the attribute \<open>source_ns\<close> is the one-element tuple that
  holds the namespace; the tuple is a list here. \<open>KeyError\<close> carries the missing key
  (\<open>None\<close> for the key \<open>None\<close>). \<open>AttributeError\<close> is what iterating over an unset
  \<open>finalized_namespaces\<close> raises.
\<close>

datatype error =
    DuplicatePrefixError (err_message: string) (err_prefix: string)
      (err_source_ns: "string list") (err_dest_ns: string)
  | KeyError "string option"
  | AttributeError

text \<open>
  What the module imports from outside this file: the identifier namespace and its alias
  (\<open>stix.utils.idgen\<close>), the list \<open>cybox.utils.nsparser.NS_LIST\<close> of triples (namespace,
  prefix, schema location or a false value), and the same list of python-maec, which is
  \<open>None\<close> when the import of \<open>maec\<close> fails.
\<close>

record env =
  id_namespace :: string
  id_namespace_alias :: string
  cybox_NS_LIST :: "(string \<times> string \<times> string option) list"
  maec_NS_LIST :: "(string \<times> string \<times> string option) list option"

subsection \<open>The constant tables of the module\<close>

text \<open>The dictionary literals of the source, in the order of the source text.
  \<open>BASELINE_NAMESPACES\<close> is the class attribute \<open>NamespaceInfo._BASELINE_NAMESPACES\<close>
  (prefix to namespace); the others map a namespace to a prefix or to a schema location.\<close>

definition BASELINE_NAMESPACES :: "string dict" where
  "BASELINE_NAMESPACES =
    [(''xsi'', ''http://www.w3.org/2001/XMLSchema-instance''),
     (''stix'', ''http://stix.mitre.org/stix-1''),
     (''stixCommon'', ''http://stix.mitre.org/common-1''),
     (''stixVocabs'', ''http://stix.mitre.org/default_vocabularies-1''),
     (''cybox'', ''http://cybox.mitre.org/cybox-2''),
     (''cyboxCommon'', ''http://cybox.mitre.org/common-2''),
     (''cyboxVocabs'', ''http://cybox.mitre.org/default_vocabularies-2'')]"

definition XML_NAMESPACES :: "string dict" where
  "XML_NAMESPACES =
    [(''http://www.w3.org/2001/XMLSchema-instance'', ''xsi''),
     (''http://www.w3.org/2001/XMLSchema'', ''xs''),
     (''http://www.w3.org/1999/xlink'', ''xlink''),
     (''http://www.w3.org/2000/09/xmldsig#'', ''ds'')]"

definition STIX_NS_TO_SCHEMALOCATION :: "string dict" where
  "STIX_NS_TO_SCHEMALOCATION =
    [(''http://data-marking.mitre.org/Marking-1'',
        ''http://stix.mitre.org/XMLSchema/data_marking/1.1.1/data_marking.xsd''),
     (''http://data-marking.mitre.org/extensions/MarkingStructure#Simple-1'',
        ''http://stix.mitre.org/XMLSchema/extensions/marking/simple/1.1.1/simple_marking.xsd''),
     (''http://data-marking.mitre.org/extensions/MarkingStructure#TLP-1'',
        ''http://stix.mitre.org/XMLSchema/extensions/marking/tlp/1.1.1/tlp_marking.xsd''),
     (''http://data-marking.mitre.org/extensions/MarkingStructure#Terms_Of_Use-1'',
        ''http://stix.mitre.org/XMLSchema/extensions/marking/terms_of_use/1.0.1/terms_of_use_marking.xsd''),
     (''http://stix.mitre.org/Campaign-1'',
        ''http://stix.mitre.org/XMLSchema/campaign/1.1.1/campaign.xsd''),
     (''http://stix.mitre.org/CourseOfAction-1'',
        ''http://stix.mitre.org/XMLSchema/course_of_action/1.1.1/course_of_action.xsd''),
     (''http://stix.mitre.org/ExploitTarget-1'',
        ''http://stix.mitre.org/XMLSchema/exploit_target/1.1.1/exploit_target.xsd''),
     (''http://stix.mitre.org/Incident-1'',
        ''http://stix.mitre.org/XMLSchema/incident/1.1.1/incident.xsd''),
     (''http://stix.mitre.org/Indicator-2'',
        ''http://stix.mitre.org/XMLSchema/indicator/2.1.1/indicator.xsd''),
     (''http://stix.mitre.org/TTP-1'', ''http://stix.mitre.org/XMLSchema/ttp/1.1.1/ttp.xsd''),
     (''http://stix.mitre.org/ThreatActor-1'',
        ''http://stix.mitre.org/XMLSchema/threat_actor/1.1.1/threat_actor.xsd''),
     (''http://stix.mitre.org/common-1'',
        ''http://stix.mitre.org/XMLSchema/common/1.1.1/stix_common.xsd''),
     (''http://stix.mitre.org/default_vocabularies-1'',
        ''http://stix.mitre.org/XMLSchema/default_vocabularies/1.1.1/stix_default_vocabularies.xsd''),
     (''http://stix.mitre.org/extensions/AP#CAPEC2.7-1'',
        ''http://stix.mitre.org/XMLSchema/extensions/attack_pattern/capec_2.7/1.0.1/capec_2.7_attack_pattern.xsd''),
     (''http://stix.mitre.org/extensions/Address#CIQAddress3.0-1'',
        ''http://stix.mitre.org/XMLSchema/extensions/address/ciq_3.0/1.1.1/ciq_3.0_address.xsd''),
     (''http://stix.mitre.org/extensions/Identity#CIQIdentity3.0-1'',
        ''http://stix.mitre.org/XMLSchema/extensions/identity/ciq_3.0/1.1.1/ciq_3.0_identity.xsd''),
     (''http://stix.mitre.org/extensions/Malware#MAEC4.1-1'',
        ''http://stix.mitre.org/XMLSchema/extensions/malware/maec_4.1/1.0.1/maec_4.1_malware.xsd''),
     (''http://stix.mitre.org/extensions/StructuredCOA#Generic-1'',
        ''http://stix.mitre.org/XMLSchema/extensions/structured_coa/generic/1.1.1/generic_structured_coa.xsd''),
     (''http://stix.mitre.org/extensions/TestMechanism#Generic-1'',
        ''http://stix.mitre.org/XMLSchema/extensions/test_mechanism/generic/1.1.1/generic_test_mechanism.xsd''),
     (''http://stix.mitre.org/extensions/TestMechanism#OVAL5.10-1'',
        ''http://stix.mitre.org/XMLSchema/extensions/test_mechanism/oval_5.10/1.1.1/oval_5.10_test_mechanism.xsd''),
     (''http://stix.mitre.org/extensions/TestMechanism#OpenIOC2010-1'',
        ''http://stix.mitre.org/XMLSchema/extensions/test_mechanism/open_ioc_2010/1.1.1/open_ioc_2010_test_mechanism.xsd''),
     (''http://stix.mitre.org/extensions/TestMechanism#Snort-1'',
        ''http://stix.mitre.org/XMLSchema/extensions/test_mechanism/snort/1.1.1/snort_test_mechanism.xsd''),
     (''http://stix.mitre.org/extensions/TestMechanism#YARA-1'',
        ''http://stix.mitre.org/XMLSchema/extensions/test_mechanism/yara/1.1.1/yara_test_mechanism.xsd''),
     (''http://stix.mitre.org/extensions/Vulnerability#CVRF-1'',
        ''http://stix.mitre.org/XMLSchema/extensions/vulnerability/cvrf_1.1/1.1.1/cvrf_1.1_vulnerability.xsd''),
     (''http://stix.mitre.org/stix-1'',
        ''http://stix.mitre.org/XMLSchema/core/1.1.1/stix_core.xsd'')]"

definition EXT_NS_TO_SCHEMALOCATION :: "string dict" where
  "EXT_NS_TO_SCHEMALOCATION =
    [(''urn:oasis:names:tc:ciq:xal:3'',
        ''http://stix.mitre.org/XMLSchema/external/oasis_ciq_3.0/xAL.xsd''),
     (''urn:oasis:names:tc:ciq:xpil:3'',
        ''http://stix.mitre.org/XMLSchema/external/oasis_ciq_3.0/xPIL.xsd''),
     (''urn:oasis:names:tc:ciq:xnl:3'',
        ''http://stix.mitre.org/XMLSchema/external/oasis_ciq_3.0/xNL.xsd'')]"

definition DEFAULT_STIX_NS_TO_PREFIX :: "string dict" where
  "DEFAULT_STIX_NS_TO_PREFIX =
    [(''http://cybox.mitre.org/common-2'', ''cyboxCommon''),
     (''http://cybox.mitre.org/cybox-2'', ''cybox''),
     (''http://data-marking.mitre.org/Marking-1'', ''marking''),
     (''http://data-marking.mitre.org/extensions/MarkingStructure#Simple-1'', ''simpleMarking''),
     (''http://data-marking.mitre.org/extensions/MarkingStructure#TLP-1'', ''tlpMarking''),
     (''http://data-marking.mitre.org/extensions/MarkingStructure#Terms_Of_Use-1'', ''TOUMarking''),
     (''http://stix.mitre.org/Campaign-1'', ''campaign''),
     (''http://stix.mitre.org/CourseOfAction-1'', ''coa''),
     (''http://stix.mitre.org/ExploitTarget-1'', ''et''),
     (''http://stix.mitre.org/Incident-1'', ''incident''),
     (''http://stix.mitre.org/Indicator-2'', ''indicator''),
     (''http://stix.mitre.org/TTP-1'', ''ttp''),
     (''http://stix.mitre.org/ThreatActor-1'', ''ta''),
     (''http://stix.mitre.org/stix-1'', ''stix''),
     (''http://stix.mitre.org/common-1'', ''stixCommon''),
     (''http://stix.mitre.org/default_vocabularies-1'', ''stixVocabs''),
     (''http://stix.mitre.org/extensions/AP#CAPEC2.7-1'', ''stix-capec''),
     (''http://stix.mitre.org/extensions/Address#CIQAddress3.0-1'', ''stix-ciqaddress''),
     (''http://stix.mitre.org/extensions/Identity#CIQIdentity3.0-1'', ''ciqIdentity''),
     (''http://stix.mitre.org/extensions/Malware#MAEC4.1-1'', ''stix-maec''),
     (''http://stix.mitre.org/extensions/StructuredCOA#Generic-1'', ''genericStructuredCOA''),
     (''http://stix.mitre.org/extensions/TestMechanism#Generic-1'', ''genericTM''),
     (''http://stix.mitre.org/extensions/TestMechanism#OVAL5.10-1'', ''stix-oval''),
     (''http://stix.mitre.org/extensions/TestMechanism#OpenIOC2010-1'', ''stix-openioc''),
     (''http://stix.mitre.org/extensions/TestMechanism#Snort-1'', ''snortTM''),
     (''http://stix.mitre.org/extensions/TestMechanism#YARA-1'', ''yaraTM''),
     (''http://stix.mitre.org/extensions/Vulnerability#CVRF-1'', ''stix-cvrf'')]"

definition DEFAULT_EXT_TO_PREFIX :: "string dict" where
  "DEFAULT_EXT_TO_PREFIX =
    [(''http://capec.mitre.org/capec-2'', ''capec''),
     (''http://maec.mitre.org/XMLSchema/maec-package-2'', ''maecPackage''),
     (''http://oval.mitre.org/XMLSchema/oval-definitions-5'', ''oval-def''),
     (''http://oval.mitre.org/XMLSchema/oval-variables-5'', ''oval-var''),
     (''http://schemas.mandiant.com/2010/ioc'', ''ioc''),
     (''http://schemas.mandiant.com/2010/ioc/TR/'', ''ioc-tr''),
     (''http://www.icasi.org/CVRF/schema/cvrf/1.1'', ''cvrf''),
     (''urn:oasis:names:tc:ciq:xal:3'', ''xal''),
     (''urn:oasis:names:tc:ciq:xpil:3'', ''xpil''),
     (''urn:oasis:names:tc:ciq:xnl:3'', ''xnl'')]"

text \<open>The tables computed when the module is loaded. \<open>itertools.chain\<close> concatenates
  the items, and \<open>dict\<close> lets a later pair win.\<close>

definition CYBOX_NS_TO_SCHEMALOCATION :: "env \<Rightarrow> string dict" where
  "CYBOX_NS_TO_SCHEMALOCATION e =
     dict_of (map (\<lambda>(ns, _, schemaloc). (ns, the schemaloc))
       (filter (\<lambda>(ns, _, schemaloc). truthy schemaloc) (cybox_NS_LIST e)))"

definition DEFAULT_CYBOX_NAMESPACES :: "env \<Rightarrow> string dict" where
  "DEFAULT_CYBOX_NAMESPACES e = dict_of (map (\<lambda>(ns, alias, _). (ns, alias)) (cybox_NS_LIST e))"

text \<open>The support code for python-maec runs only when \<open>maec\<close> can be imported. It
  deletes one namespace from its own prefix table before the update; the deletion raises
  when the namespace is not in python-maec's list, which stops the import of the whole
  module, so that list is taken to hold it.\<close>

definition maec_ns_to_prefix :: "(string \<times> string \<times> string option) list \<Rightarrow> string dict" where
  "maec_ns_to_prefix l =
     dict_del (dict_of (map (\<lambda>(ns, prefix, _). (ns, prefix)) l))
       ''http://maec.mitre.org/default_vocabularies-1''"

definition maec_ns_to_schemalocation ::
  "(string \<times> string \<times> string option) list \<Rightarrow> string dict" where
  "maec_ns_to_schemalocation l =
     dict_of (map (\<lambda>(ns, _, schemaloc). (ns, the schemaloc))
       (filter (\<lambda>(ns, _, schemaloc). truthy schemaloc) l))"

definition DEFAULT_STIX_NAMESPACES :: "env \<Rightarrow> string dict" where
  "DEFAULT_STIX_NAMESPACES e =
     (let d = dict_of (DEFAULT_CYBOX_NAMESPACES e @ XML_NAMESPACES
                @ DEFAULT_STIX_NS_TO_PREFIX @ DEFAULT_EXT_TO_PREFIX)
      in case maec_NS_LIST e of
           None \<Rightarrow> d
         | Some l \<Rightarrow> dict_update d (maec_ns_to_prefix l))"

definition DEFAULT_STIX_NAMESPACES_TUPLE :: "env \<Rightarrow> string list" where
  "DEFAULT_STIX_NAMESPACES_TUPLE e = dict_keys (DEFAULT_STIX_NAMESPACES e)"

definition DEFAULT_STIX_SCHEMALOCATIONS :: "env \<Rightarrow> string dict" where
  "DEFAULT_STIX_SCHEMALOCATIONS e =
     (let d = dict_of (STIX_NS_TO_SCHEMALOCATION @ EXT_NS_TO_SCHEMALOCATION
                @ CYBOX_NS_TO_SCHEMALOCATION e)
      in case maec_NS_LIST e of
           None \<Rightarrow> d
         | Some l \<Rightarrow> dict_update d (maec_ns_to_schemalocation l))"

subsection \<open>\<open>NamespaceInfo\<close>: construction, merge and collection\<close>

text \<open>\<open>NamespaceInfo.__init__\<close>: \<open>_collected_namespaces = {None: set()}\<close>, the other
  collections empty, both finalized maps \<open>None\<close>.\<close>

definition NamespaceInfo_init :: NamespaceInfo where
  "NamespaceInfo_init =
     \<lparr>collected_namespaces = \<lparr>no_alias = Some [], aliased = []\<rparr>,
      input_namespaces = [],
      input_schemalocs = [],
      collected_classes = [],
      finalized_namespaces = None,
      finalized_schemalocs = None\<rparr>"

text \<open>\<open>NamespaceInfo.update(self, ns_info)\<close>: three calls of \<open>dict.update\<close>. On
  \<open>_collected_namespaces\<close> the key \<open>None\<close> is a key like any other, so the other
  registry's set replaces this registry's set. \<open>_collected_classes\<close> is not touched.\<close>

definition NamespaceInfo_update :: "NamespaceInfo \<Rightarrow> NamespaceInfo \<Rightarrow> NamespaceInfo" where
  "NamespaceInfo_update self ns_info =
     self\<lparr>collected_namespaces :=
            \<lparr>no_alias =
               (case no_alias (collected_namespaces ns_info) of
                  None \<Rightarrow> no_alias (collected_namespaces self)
                | Some other_set \<Rightarrow> Some other_set),
             aliased =
               dict_update (aliased (collected_namespaces self))
                 (aliased (collected_namespaces ns_info))\<rparr>,
          input_namespaces := dict_update (input_namespaces self) (input_namespaces ns_info),
          input_schemalocs := dict_update (input_schemalocs self) (input_schemalocs ns_info)\<rparr>"

text \<open>\<open>NamespaceInfo.collect(self, entity)\<close>.\<close>

definition collect :: "NamespaceInfo \<Rightarrow> entity \<Rightarrow> NamespaceInfo" where
  "collect self ent =
     (let s1 = self\<lparr>collected_classes := set_update (collected_classes self) (mro ent)\<rparr>;
          s2 = (case ent_input_namespaces ent of
                  None \<Rightarrow> s1
                | Some d \<Rightarrow> s1\<lparr>input_namespaces := dict_update (input_namespaces s1) d\<rparr>)
      in case ent_input_schemalocations ent of
           None \<Rightarrow> s2
         | Some d \<Rightarrow> s2\<lparr>input_schemalocs := dict_update (input_schemalocs s2) d\<rparr>)"

text \<open>A registry after a sequence of \<open>collect\<close> calls.\<close>

fun collect_all :: "NamespaceInfo \<Rightarrow> entity list \<Rightarrow> NamespaceInfo" where
  "collect_all self [] = self"
| "collect_all self (ent # ents) = collect_all (collect self ent) ents"

subsection \<open>Alias derivation: \<open>_parse_collected_classes\<close>\<close>

text \<open>The loop over the collected entity classes. \<open>bucket\<close> is the set under the key
  \<open>None\<close> (the bound method \<open>no_alias\<close> adds to it), \<open>al\<close> the prefixed entries.\<close>

fun parse_loop :: "klass list \<Rightarrow> string list \<Rightarrow> string dict \<Rightarrow> string list \<times> string dict" where
  "parse_loop [] bucket al = (bucket, al)"
| "parse_loop (k # ks) bucket al =
     (if \<not> truthy (klass_namespace k) then parse_loop ks bucket al
      else let ns = the (klass_namespace k) in
        if truthy (klass_XSI_NS k) then parse_loop ks bucket (dict_set al (the (klass_XSI_NS k)) ns)
        else if \<not> truthy (klass_XSI_TYPE k) then parse_loop ks (set_add bucket ns) al
        else let typeinfo = split_colon (the (klass_XSI_TYPE k)) in
          if length typeinfo = 2 then parse_loop ks bucket (dict_set al (hd typeinfo) ns)
          else parse_loop ks (set_add bucket ns) al)"

text \<open>\<open>self._collected_namespaces[None].add\<close> is evaluated before the loop, whatever the
  classes are: it raises \<open>KeyError\<close> when the key \<open>None\<close> is gone.\<close>

definition parse_collected_classes :: "NamespaceInfo \<Rightarrow> (error + unit) \<times> NamespaceInfo" where
  "parse_collected_classes self =
     (case no_alias (collected_namespaces self) of
        None \<Rightarrow> (Inl (KeyError None), self)
      | Some bucket \<Rightarrow>
          (case parse_loop (filter is_entity (collected_classes self)) bucket
                  (aliased (collected_namespaces self)) of
             (bucket', al') \<Rightarrow>
               (Inr (), self\<lparr>collected_namespaces := \<lparr>no_alias = Some bucket', aliased = al'\<rparr>\<rparr>)))"

subsection \<open>The namespace merge: \<open>_finalize_namespaces\<close>\<close>

text \<open>\<open>_fix_example_namespace(ns_dict, input_namespaces)\<close>; the result is what is left
  of \<open>input_namespaces\<close>, which the source changes in place.\<close>

definition fix_example_namespace :: "string dict \<Rightarrow> string dict \<Rightarrow> string dict" where
  "fix_example_namespace ns_dict input_ns =
     (let sample_ns = ''http://example.com/'';
          api_ns = ''http://example.com'';
          prefix = ''example''
      in if dict_get input_ns sample_ns = Some prefix \<and> dict_get ns_dict api_ns = Some prefix
         then dict_del input_ns ''http://example.com/''
         else input_ns)"

text \<open>The message of \<open>DuplicatePrefixError\<close>; \<open>CHR 0x27\<close> is the apostrophe.\<close>

definition duplicate_prefix_message :: "string \<Rightarrow> string \<Rightarrow> string \<Rightarrow> string" where
  "duplicate_prefix_message prefix namespace current_ns =
     ''Cannot map namespace prefix '' @ [CHR 0x27] @ prefix @ [CHR 0x27] @ '' to ''
       @ [CHR 0x27] @ namespace @ [CHR 0x27] @ '': prefix already mapped to ''
       @ [CHR 0x27] @ current_ns @ [CHR 0x27] @ ''.''"

text \<open>\<open>_check_namespace_alias(ns_dict, prefix, namespace)\<close>.\<close>

definition check_namespace_alias :: "string dict \<Rightarrow> string \<Rightarrow> string \<Rightarrow> error + unit" where
  "check_namespace_alias ns_dict prefix namespace =
     (case dict_get ns_dict prefix of
        None \<Rightarrow> Inr ()
      | Some current_ns \<Rightarrow>
          if current_ns = namespace then Inr ()
          else Inl (DuplicatePrefixError
                      (duplicate_prefix_message prefix namespace current_ns)
                      prefix [current_ns] namespace))"

text \<open>The loop over \<open>_input_namespaces\<close> (lines 200 to 209); \<open>known\<close> is
  \<open>DEFAULT_STIX_NAMESPACES_TUPLE\<close>.\<close>

fun merge_input_namespaces ::
  "string list \<Rightarrow> (string \<times> string) list \<Rightarrow> string dict \<Rightarrow> error + string dict" where
  "merge_input_namespaces known [] d_ns = Inr d_ns"
| "merge_input_namespaces known ((alias, ns) # rest) d_ns =
     (if ns \<in> set known then merge_input_namespaces known rest d_ns
      else case check_namespace_alias d_ns alias ns of
             Inl err \<Rightarrow> Inl err
           | Inr _ \<Rightarrow> merge_input_namespaces known rest (dict_set d_ns alias ns))"

text \<open>The loop over the set popped from under the key \<open>None\<close> (lines 215 to 218);
  \<open>defaults\<close> is \<open>DEFAULT_STIX_NAMESPACES\<close>, indexed without a guard.\<close>

fun merge_no_alias ::
  "string dict \<Rightarrow> string list \<Rightarrow> string dict \<Rightarrow> error + string dict" where
  "merge_no_alias defaults [] d_ns = Inr d_ns"
| "merge_no_alias defaults (ns # rest) d_ns =
     (case dict_get defaults ns of
        None \<Rightarrow> Inl (KeyError (Some ns))
      | Some alias \<Rightarrow>
          (case check_namespace_alias d_ns alias ns of
             Inl err \<Rightarrow> Inl err
           | Inr _ \<Rightarrow> merge_no_alias defaults rest (dict_set d_ns alias ns)))"

text \<open>The loops over the prefixed collected namespaces (lines 221 to 223, into \<open>d_ns\<close>)
  and over \<open>d_ns\<close> (lines 230 to 232, into the caller's dictionary): check, then assign.\<close>

fun merge_aliased :: "(string \<times> string) list \<Rightarrow> string dict \<Rightarrow> error + string dict" where
  "merge_aliased [] target = Inr target"
| "merge_aliased ((alias, ns) # rest) target =
     (case check_namespace_alias target alias ns of
        Inl err \<Rightarrow> Inl err
      | Inr _ \<Rightarrow> merge_aliased rest (dict_set target alias ns))"

text \<open>Lines 181 to 184: a caller's dictionary that is \<open>None\<close> or empty gives \<open>{}\<close>;
  otherwise it is read as namespace to prefix and turned around.\<close>

definition invert_ns_dict :: "string dict option \<Rightarrow> string dict" where
  "invert_ns_dict ns_dict =
     (case ns_dict of
        None \<Rightarrow> []
      | Some d \<Rightarrow> if d = [] then [] else dict_of (map (\<lambda>(ns, alias). (alias, ns)) d))"

text \<open>Lines 190 and 191: the baseline prefixes, then the identifier pair, assigned
  without a check.\<close>

definition seed_namespaces :: "env \<Rightarrow> string dict" where
  "seed_namespaces e = dict_set (dict_of BASELINE_NAMESPACES) (id_namespace_alias e) (id_namespace e)"

text \<open>\<open>_finalize_namespaces(self, ns_dict)\<close>. The registry that comes back has lost the
  entry of \<open>_input_namespaces\<close> that the example fix deleted and, once line 214 is
  reached, the key \<open>None\<close> of \<open>_collected_namespaces\<close>.\<close>

definition finalize_namespaces ::
  "env \<Rightarrow> string dict option \<Rightarrow> NamespaceInfo \<Rightarrow> (error + string dict) \<times> NamespaceInfo" where
  "finalize_namespaces e ns_dict self =
     (let base = invert_ns_dict ns_dict;
          d_ns = seed_namespaces e;
          s1 = self\<lparr>input_namespaces := fix_example_namespace d_ns (input_namespaces self)\<rparr>
      in case merge_input_namespaces (DEFAULT_STIX_NAMESPACES_TUPLE e) (input_namespaces s1) d_ns of
           Inl err \<Rightarrow> (Inl err, s1)
         | Inr d1 \<Rightarrow>
             let bucket = (case no_alias (collected_namespaces s1) of None \<Rightarrow> [] | Some b \<Rightarrow> b);
                 s2 = s1\<lparr>collected_namespaces := (collected_namespaces s1)\<lparr>no_alias := None\<rparr>\<rparr>
             in case merge_no_alias (DEFAULT_STIX_NAMESPACES e) bucket d1 of
                  Inl err \<Rightarrow> (Inl err, s2)
                | Inr d2 \<Rightarrow>
                    (case merge_aliased (aliased (collected_namespaces s2)) d2 of
                       Inl err \<Rightarrow> (Inl err, s2)
                     | Inr d3 \<Rightarrow>
                         (case merge_aliased d3 base of
                            Inl err \<Rightarrow> (Inl err, s2)
                          | Inr result \<Rightarrow> (Inr result, s2))))"

subsection \<open>The schema-location merge: \<open>_finalize_schemalocs\<close>\<close>

text \<open>Lines 259 to 262: a parsed schema location is taken only for a namespace the
  caller's dictionary does not have.\<close>

fun merge_input_schemalocs :: "(string \<times> string) list \<Rightarrow> string dict \<Rightarrow> string dict" where
  "merge_input_schemalocs [] schemaloc_dict = schemaloc_dict"
| "merge_input_schemalocs ((ns, loc) # rest) schemaloc_dict =
     (if dict_has schemaloc_dict ns then merge_input_schemalocs rest schemaloc_dict
      else merge_input_schemalocs rest (dict_set schemaloc_dict ns loc))"

definition schemaloc_warning :: "string \<Rightarrow> string" where
  "schemaloc_warning ns =
     ''Unable to map namespace '' @ [CHR 0x27] @ ns @ [CHR 0x27] @ '' to schemaLocation''"

text \<open>Lines 267 to 276: the loop over \<open>self.finalized_namespaces.iterkeys()\<close>. The loop
  variable is called \<open>ns\<close> in the source; what it holds is a key of the finalized
  dictionary. The result is the dictionary and the warnings issued, in order.\<close>

fun map_schemalocs ::
  "string dict \<Rightarrow> string \<Rightarrow> string list \<Rightarrow> string dict \<Rightarrow> string list
     \<Rightarrow> string dict \<times> string list" where
  "map_schemalocs defaults id_ns [] schemaloc_dict warned = (schemaloc_dict, warned)"
| "map_schemalocs defaults id_ns (ns # rest) schemaloc_dict warned =
     (case dict_get defaults ns of
        Some loc \<Rightarrow> map_schemalocs defaults id_ns rest (dict_set schemaloc_dict ns loc) warned
      | None \<Rightarrow>
          if dict_has schemaloc_dict ns then map_schemalocs defaults id_ns rest schemaloc_dict warned
          else if ns = id_ns \<or> dict_has XML_NAMESPACES ns
               then map_schemalocs defaults id_ns rest schemaloc_dict warned
          else map_schemalocs defaults id_ns rest schemaloc_dict
                 (warned @ [schemaloc_warning ns]))"

text \<open>\<open>_finalize_schemalocs(self, schemaloc_dict)\<close>: returns the dictionary and the
  warnings; it changes nothing in the registry.\<close>

definition finalize_schemalocs ::
  "env \<Rightarrow> string dict option \<Rightarrow> NamespaceInfo \<Rightarrow> error + (string dict \<times> string list)" where
  "finalize_schemalocs e schemaloc_dict self =
     (let sd0 = (case schemaloc_dict of None \<Rightarrow> [] | Some d \<Rightarrow> dict_of d);
          sd1 = merge_input_schemalocs (input_schemalocs self) sd0
      in case finalized_namespaces self of
           None \<Rightarrow> Inl AttributeError
         | Some fin \<Rightarrow>
             Inr (map_schemalocs (DEFAULT_STIX_SCHEMALOCATIONS e) (id_namespace e)
                    (dict_keys fin) sd1 []))"

subsection \<open>\<open>finalize\<close>\<close>

text \<open>\<open>NamespaceInfo.finalize(self, ns_dict, schemaloc_dict)\<close>: three statements; an
  exception in one of them leaves the later assignments undone. A normal return carries
  the warnings issued.\<close>

definition finalize ::
  "env \<Rightarrow> string dict option \<Rightarrow> string dict option \<Rightarrow> NamespaceInfo
     \<Rightarrow> (error + string list) \<times> NamespaceInfo" where
  "finalize e ns_dict schemaloc_dict self =
     (case parse_collected_classes self of
        (Inl err, s1) \<Rightarrow> (Inl err, s1)
      | (Inr _, s1) \<Rightarrow>
          (case finalize_namespaces e ns_dict s1 of
             (Inl err, s2) \<Rightarrow> (Inl err, s2)
           | (Inr fin, s2) \<Rightarrow>
               let s3 = s2\<lparr>finalized_namespaces := Some fin\<rparr>
               in case finalize_schemalocs e schemaloc_dict s3 of
                    Inl err \<Rightarrow> (Inl err, s3)
                  | Inr (locs, warned) \<Rightarrow> (Inr warned, s3\<lparr>finalized_schemalocs := Some locs\<rparr>)))"

subsection \<open>\<open>NamespaceParser\<close>\<close>

text \<open>\<open>get_namespaces(self, entity, ns_dict)\<close>; \<open>nodes\<close> is what \<open>iterwalk(entity)\<close>
  yields. The result is the attribute \<open>finalized_namespaces\<close> of the fresh registry.\<close>

definition get_namespaces :: "env \<Rightarrow> entity list \<Rightarrow> string dict option \<Rightarrow> error + string dict option" where
  "get_namespaces e nodes ns_dict =
     (case finalize e ns_dict None (collect_all NamespaceInfo_init nodes) of
        (Inl err, _) \<Rightarrow> Inl err
      | (Inr _, ns_info) \<Rightarrow> Inr (finalized_namespaces ns_info))"

text \<open>\<open>get_xmlns_str(self, ns_dict)\<close>: the items are sorted as pairs (key first), each
  pair is unpacked as \<open>ns, alias\<close> and printed as \<open>xmlns:alias="ns"\<close>, and the lines are
  joined by a newline and a tab. \<open>CHR 0x22\<close> is the double quote.\<close>

definition xmlns_line :: "string \<times> string \<Rightarrow> string" where
  "xmlns_line p = (case p of (ns, alias) \<Rightarrow>
     ''xmlns:'' @ alias @ ''='' @ [CHR 0x22] @ ns @ [CHR 0x22])"

definition get_xmlns_str :: "string dict \<Rightarrow> string" where
  "get_xmlns_str ns_dict = join [CHR 0x0A, CHR 0x09] (map xmlns_line (sort ns_dict))"

subsection \<open>The places where the merge checks a binding\<close>

text \<open>
  \<open>_finalize_namespaces\<close> calls \<open>_check_namespace_alias\<close> in four loops, each time just
  before it assigns. \<open>merge_attempt e ns_dict self d p ns\<close> says that one of the loops gets
  as far as the pair of prefix \<open>p\<close> and namespace \<open>ns\<close>, with \<open>d\<close> the dictionary it is
  about to assign into: the loop over the parsed input namespaces (for a namespace that
  is not well known), the loop over the set without prefixes (\<open>p\<close> is then the prefix
  of the default table), the loop over the collected prefixes, and the last loop, which
  lays the working dictionary over the caller's. \<open>self\<close> is the registry as
  \<open>_parse_collected_classes\<close> left it. The assignment of the identifier pair on line 191
  is not among them: no check is made there.
\<close>

inductive merge_attempt ::
  "env \<Rightarrow> string dict option \<Rightarrow> NamespaceInfo \<Rightarrow> string dict \<Rightarrow> string \<Rightarrow> string \<Rightarrow> bool"
  for e :: env and ns_dict :: "string dict option" and self :: NamespaceInfo
where
  at_input:
    "fix_example_namespace (seed_namespaces e) (input_namespaces self) = pre @ (p, ns) # post \<Longrightarrow>
     merge_input_namespaces (DEFAULT_STIX_NAMESPACES_TUPLE e) pre (seed_namespaces e) = Inr d \<Longrightarrow>
     ns \<notin> set (DEFAULT_STIX_NAMESPACES_TUPLE e) \<Longrightarrow>
     merge_attempt e ns_dict self d p ns"
| at_no_alias:
    "merge_input_namespaces (DEFAULT_STIX_NAMESPACES_TUPLE e)
       (fix_example_namespace (seed_namespaces e) (input_namespaces self)) (seed_namespaces e) = Inr d1 \<Longrightarrow>
     no_alias (collected_namespaces self) = Some (pre @ ns # post) \<Longrightarrow>
     merge_no_alias (DEFAULT_STIX_NAMESPACES e) pre d1 = Inr d \<Longrightarrow>
     dict_get (DEFAULT_STIX_NAMESPACES e) ns = Some p \<Longrightarrow>
     merge_attempt e ns_dict self d p ns"
| at_collected:
    "merge_input_namespaces (DEFAULT_STIX_NAMESPACES_TUPLE e)
       (fix_example_namespace (seed_namespaces e) (input_namespaces self)) (seed_namespaces e) = Inr d1 \<Longrightarrow>
     merge_no_alias (DEFAULT_STIX_NAMESPACES e)
       (case no_alias (collected_namespaces self) of None \<Rightarrow> [] | Some b \<Rightarrow> b) d1 = Inr d2 \<Longrightarrow>
     aliased (collected_namespaces self) = pre @ (p, ns) # post \<Longrightarrow>
     merge_aliased pre d2 = Inr d \<Longrightarrow>
     merge_attempt e ns_dict self d p ns"
| at_overlay:
    "merge_input_namespaces (DEFAULT_STIX_NAMESPACES_TUPLE e)
       (fix_example_namespace (seed_namespaces e) (input_namespaces self)) (seed_namespaces e) = Inr d1 \<Longrightarrow>
     merge_no_alias (DEFAULT_STIX_NAMESPACES e)
       (case no_alias (collected_namespaces self) of None \<Rightarrow> [] | Some b \<Rightarrow> b) d1 = Inr d2 \<Longrightarrow>
     merge_aliased (aliased (collected_namespaces self)) d2 = Inr d3 \<Longrightarrow>
     d3 = pre @ (p, ns) # post \<Longrightarrow>
     merge_aliased pre (invert_ns_dict ns_dict) = Inr d \<Longrightarrow>
     merge_attempt e ns_dict self d p ns"

subsection \<open>Inputs of the worked examples\<close>

text \<open>Two settings of what the module imports: the identifier namespace
  \<open>http://example.com\<close> under the prefix \<open>example\<close>, and the same namespace under the
  prefix \<open>stix\<close>, which is also a baseline prefix. Both leave the lists of python-cybox
  and python-maec empty.\<close>

definition example_env :: env where
  "example_env =
     \<lparr>id_namespace = ''http://example.com'', id_namespace_alias = ''example'',
      cybox_NS_LIST = [], maec_NS_LIST = None\<rparr>"

definition clashing_env :: env where
  "clashing_env =
     \<lparr>id_namespace = ''http://example.com'', id_namespace_alias = ''stix'',
      cybox_NS_LIST = [], maec_NS_LIST = None\<rparr>"

text \<open>An entity parsed from a document that declares the prefix \<open>example\<close> for the
  namespace with the trailing slash, and an entity whose class names its own prefix
  \<open>x\<close>.\<close>

definition sample_entity :: entity where
  "sample_entity =
     \<lparr>mro = [], ent_input_namespaces = Some [(''example'', ''http://example.com/'')],
      ent_input_schemalocations = None\<rparr>"

definition vendor_klass :: klass where
  "vendor_klass =
     \<lparr>klass_name = ''VendorObject'', is_entity = True, klass_namespace = Some ''urn:one'',
      klass_XSI_NS = Some ''x'', klass_XSI_TYPE = None\<rparr>"

definition vendor_entity :: entity where
  "vendor_entity = \<lparr>mro = [vendor_klass], ent_input_namespaces = None, ent_input_schemalocations = None\<rparr>"

text \<open>A class that derives its prefix from its \<open>_XSI_TYPE\<close>, with an entity of it, and a
  class that declares a namespace of its own without any prefix.\<close>

definition indicator_klass :: klass where
  "indicator_klass =
     \<lparr>klass_name = ''Indicator'', is_entity = True,
      klass_namespace = Some ''http://stix.mitre.org/Indicator-2'',
      klass_XSI_NS = None, klass_XSI_TYPE = Some ''indicator:IndicatorType''\<rparr>"

definition indicator_entity :: entity where
  "indicator_entity =
     \<lparr>mro = [indicator_klass], ent_input_namespaces = None, ent_input_schemalocations = None\<rparr>"

definition unknown_klass :: klass where
  "unknown_klass =
     \<lparr>klass_name = ''Custom'', is_entity = True, klass_namespace = Some ''urn:unknown'',
      klass_XSI_NS = None, klass_XSI_TYPE = None\<rparr>"

section \<open>Properties\<close>

subsection \<open>Dictionaries and the check\<close>

lemma dict_get_set: "dict_get (dict_set d k v) k' = (if k' = k then Some v else dict_get d k')"
  by (simp add: dict_get_def dict_set_def update_conv')

lemma dict_has_get: "dict_has d k \<longleftrightarrow> dict_get d k \<noteq> None"
  by (simp add: dict_has_def dict_keys_def dict_get_def map_of_eq_None_iff)

lemma dict_get_in_set: "dict_get d k = Some v \<Longrightarrow> (k, v) \<in> set d"
  by (simp add: dict_get_def map_of_SomeD)

lemma distinct_dict_set: "distinct (map fst d) \<Longrightarrow> distinct (map fst (dict_set d k v))"
  by (simp add: dict_set_def distinct_update)

lemma check_ok_iff:
  "check_namespace_alias d p ns = Inr u \<longleftrightarrow> dict_get d p = None \<or> dict_get d p = Some ns"
  by (auto simp: check_namespace_alias_def split: option.splits)

lemma check_conflict:
  "dict_get d p = Some cur \<Longrightarrow> cur \<noteq> ns \<Longrightarrow>
   check_namespace_alias d p ns =
     Inl (DuplicatePrefixError (duplicate_prefix_message p ns cur) p [cur] ns)"
  by (simp add: check_namespace_alias_def)

subsection \<open>A loop that returns keeps every binding it found and makes every binding it tried\<close>

lemma merge_aliased_keeps:
  "merge_aliased items d = Inr d' \<Longrightarrow> dict_get d p = Some v \<Longrightarrow> dict_get d' p = Some v"
proof (induction items d rule: merge_aliased.induct)
  case (1 tgt)
  then show ?case by simp
next
  case (2 al ns rest tgt)
  from "2.prems"(1) obtain u where ok: "check_namespace_alias tgt al ns = Inr u"
    and rest: "merge_aliased rest (dict_set tgt al ns) = Inr d'"
    by (auto split: sum.splits)
  from ok "2.prems"(2) have "dict_get (dict_set tgt al ns) p = Some v"
    by (auto simp: check_ok_iff dict_get_set)
  with "2.IH" ok rest show ?case by simp
qed

lemma merge_aliased_binds:
  "merge_aliased items d = Inr d' \<Longrightarrow> (p, v) \<in> set items \<Longrightarrow> dict_get d' p = Some v"
proof (induction items d rule: merge_aliased.induct)
  case (1 tgt)
  then show ?case by simp
next
  case (2 al ns rest tgt)
  from "2.prems"(1) obtain u where ok: "check_namespace_alias tgt al ns = Inr u"
    and rest: "merge_aliased rest (dict_set tgt al ns) = Inr d'"
    by (auto split: sum.splits)
  show ?case
  proof (cases "(p, v) = (al, ns)")
    case True
    then have "dict_get (dict_set tgt al ns) p = Some v" by (simp add: dict_get_set)
    with rest show ?thesis by (rule merge_aliased_keeps)
  next
    case False
    with "2.prems"(2) have "(p, v) \<in> set rest" by auto
    with "2.IH" ok rest show ?thesis by simp
  qed
qed

lemma merge_input_keeps:
  "merge_input_namespaces known items d = Inr d' \<Longrightarrow> dict_get d p = Some v \<Longrightarrow> dict_get d' p = Some v"
proof (induction known items d rule: merge_input_namespaces.induct)
  case (1 known d_ns)
  then show ?case by simp
next
  case (2 known al ns rest d_ns)
  show ?case
  proof (cases "ns \<in> set known")
    case True
    with 2 show ?thesis by simp
  next
    case False
    with "2.prems"(1) obtain u where ok: "check_namespace_alias d_ns al ns = Inr u"
      and rest: "merge_input_namespaces known rest (dict_set d_ns al ns) = Inr d'"
      by (auto split: sum.splits)
    from ok "2.prems"(2) have "dict_get (dict_set d_ns al ns) p = Some v"
      by (auto simp: check_ok_iff dict_get_set)
    with "2.IH"(2) False ok rest show ?thesis by simp
  qed
qed

lemma merge_no_alias_keeps:
  "merge_no_alias defaults items d = Inr d' \<Longrightarrow> dict_get d p = Some v \<Longrightarrow> dict_get d' p = Some v"
proof (induction defaults items d rule: merge_no_alias.induct)
  case (1 defaults d_ns)
  then show ?case by simp
next
  case (2 defaults ns rest d_ns)
  from "2.prems"(1) obtain al u where dflt: "dict_get defaults ns = Some al"
    and ok: "check_namespace_alias d_ns al ns = Inr u"
    and rest: "merge_no_alias defaults rest (dict_set d_ns al ns) = Inr d'"
    by (auto split: sum.splits option.splits)
  from ok "2.prems"(2) have "dict_get (dict_set d_ns al ns) p = Some v"
    by (auto simp: check_ok_iff dict_get_set)
  with "2.IH" dflt ok rest show ?case by simp
qed

lemma merge_aliased_succeeds:
  "distinct (map fst items) \<Longrightarrow>
   (\<And>p v. (p, v) \<in> set items \<Longrightarrow> dict_get tgt p = None \<or> dict_get tgt p = Some v) \<Longrightarrow>
   \<exists>r. merge_aliased items tgt = Inr r"
proof (induction items tgt rule: merge_aliased.induct)
  case (1 tgt)
  then show ?case by simp
next
  case (2 al ns rest tgt)
  have ok: "check_namespace_alias tgt al ns = Inr ()"
    using "2.prems"(2) [of al ns] by (simp add: check_ok_iff)
  have "\<exists>r. merge_aliased rest (dict_set tgt al ns) = Inr r"
  proof (rule "2.IH" [OF ok])
    show "distinct (map fst rest)" using "2.prems"(1) by simp
  next
    fix p v assume pv: "(p, v) \<in> set rest"
    with "2.prems"(1) have "p \<noteq> al" by (auto simp: image_iff)
    with "2.prems"(2) [of p v] pv
    show "dict_get (dict_set tgt al ns) p = None \<or> dict_get (dict_set tgt al ns) p = Some v"
      by (simp add: dict_get_set)
  qed
  with ok show ?case by simp
qed

subsection \<open>The loops stop at the first exception\<close>

lemma merge_input_append:
  "merge_input_namespaces known (pre @ post) d =
     (case merge_input_namespaces known pre d of
        Inl err \<Rightarrow> Inl err
      | Inr d' \<Rightarrow> merge_input_namespaces known post d')"
  by (induction known pre d rule: merge_input_namespaces.induct) (auto split: sum.splits)

lemma merge_no_alias_append:
  "merge_no_alias defaults (pre @ post) d =
     (case merge_no_alias defaults pre d of
        Inl err \<Rightarrow> Inl err
      | Inr d' \<Rightarrow> merge_no_alias defaults post d')"
  by (induction defaults pre d rule: merge_no_alias.induct) (auto split: sum.splits option.splits)

lemma merge_aliased_append:
  "merge_aliased (pre @ post) d =
     (case merge_aliased pre d of
        Inl err \<Rightarrow> Inl err
      | Inr d' \<Rightarrow> merge_aliased post d')"
  by (induction pre d rule: merge_aliased.induct) (auto split: sum.splits)

subsection \<open>What the three statements of \<open>finalize\<close> leave behind\<close>

lemma finalize_namespaces_InrD:
  assumes "finalize_namespaces e ns_dict s = (Inr fin, s')"
  obtains d1 d2 d3 where
    "merge_input_namespaces (DEFAULT_STIX_NAMESPACES_TUPLE e)
       (fix_example_namespace (seed_namespaces e) (input_namespaces s)) (seed_namespaces e) = Inr d1"
    "merge_no_alias (DEFAULT_STIX_NAMESPACES e)
       (case no_alias (collected_namespaces s) of None \<Rightarrow> [] | Some b \<Rightarrow> b) d1 = Inr d2"
    "merge_aliased (aliased (collected_namespaces s)) d2 = Inr d3"
    "merge_aliased d3 (invert_ns_dict ns_dict) = Inr fin"
    "no_alias (collected_namespaces s') = None"
    "finalized_namespaces s' = finalized_namespaces s"
    "finalized_schemalocs s' = finalized_schemalocs s"
  using assms
  by (auto simp: finalize_namespaces_def Let_def split: sum.splits)

lemma finalize_namespaces_finalized:
  "finalize_namespaces e ns_dict s = (r, s') \<Longrightarrow>
   finalized_namespaces s' = finalized_namespaces s \<and> finalized_schemalocs s' = finalized_schemalocs s"
  by (auto simp: finalize_namespaces_def Let_def split: sum.splits)

lemma parse_collected_classes_finalized:
  "parse_collected_classes s = (r, s') \<Longrightarrow>
   finalized_namespaces s' = finalized_namespaces s \<and> finalized_schemalocs s' = finalized_schemalocs s"
  by (auto simp: parse_collected_classes_def split: option.splits prod.splits)

lemma finalize_schemalocs_total:
  "finalized_namespaces s = Some fin \<Longrightarrow> \<exists>locs warned. finalize_schemalocs e sd s = Inr (locs, warned)"
  by (simp add: finalize_schemalocs_def Let_def)

lemma finalize_InrD:
  assumes "finalize e ns_dict schemaloc_dict s = (Inr warned, s')"
  obtains s1 fin s2 locs where
    "parse_collected_classes s = (Inr (), s1)"
    "finalize_namespaces e ns_dict s1 = (Inr fin, s2)"
    "finalize_schemalocs e schemaloc_dict (s2\<lparr>finalized_namespaces := Some fin\<rparr>) = Inr (locs, warned)"
    "s' = s2\<lparr>finalized_namespaces := Some fin, finalized_schemalocs := Some locs\<rparr>"
  using assms
  by (auto simp: finalize_def Let_def split: sum.splits prod.splits)


lemma collect_finalized:
  "finalized_namespaces (collect s ent) = finalized_namespaces s"
  "finalized_schemalocs (collect s ent) = finalized_schemalocs s"
  by (simp_all add: collect_def Let_def split: option.splits)


lemma finalize_propagates:
  "parse_collected_classes s = (Inr (), s1) \<Longrightarrow> fst (finalize_namespaces e ns_dict s1) = Inl err \<Longrightarrow>
   fst (finalize e ns_dict schemaloc_dict s) = Inl err"
  by (cases "finalize_namespaces e ns_dict s1") (simp add: finalize_def)

lemma merge_attempt_conflict:
  assumes "merge_attempt e ns_dict s1 d p ns"
    and "dict_get d p = Some cur" and "cur \<noteq> ns"
  shows "fst (finalize_namespaces e ns_dict s1)
           = Inl (DuplicatePrefixError (duplicate_prefix_message p ns cur) p [cur] ns)"
  using assms(1)
proof cases
  case (at_input pre post)
  then show ?thesis
    using check_conflict [OF assms(2,3)]
    by (simp add: finalize_namespaces_def Let_def merge_input_append)
next
  case (at_no_alias d1 pre post)
  then show ?thesis
    using check_conflict [OF assms(2,3)]
    by (simp add: finalize_namespaces_def Let_def merge_no_alias_append)
next
  case (at_collected d1 d2 pre post)
  then show ?thesis
    using check_conflict [OF assms(2,3)]
    by (simp add: finalize_namespaces_def Let_def merge_aliased_append)
next
  case (at_overlay d1 d2 d3 pre post)
  then show ?thesis
    using check_conflict [OF assms(2,3)]
    by (simp add: finalize_namespaces_def Let_def merge_aliased_append)
qed

subsection \<open>The seeded dictionary\<close>

lemma dict_of_BASELINE: "dict_of BASELINE_NAMESPACES = BASELINE_NAMESPACES"
  by (simp add: BASELINE_NAMESPACES_def dict_of_def dict_set_def)

lemma seed_id: "dict_get (seed_namespaces e) (id_namespace_alias e) = Some (id_namespace e)"
  by (simp add: seed_namespaces_def dict_get_set)

lemma seed_other:
  "p \<noteq> id_namespace_alias e \<Longrightarrow> dict_get (seed_namespaces e) p = dict_get BASELINE_NAMESPACES p"
  by (simp add: seed_namespaces_def dict_get_set dict_of_BASELINE)

lemma distinct_seed: "distinct (map fst (seed_namespaces e))"
  unfolding seed_namespaces_def dict_of_BASELINE
  by (rule distinct_dict_set) (simp add: BASELINE_NAMESPACES_def)

lemma seed_in_final:
  assumes "finalize_namespaces e ns_dict s = (Inr fin, s')"
    and "dict_get (seed_namespaces e) p = Some v"
  shows "dict_get fin p = Some v"
proof -
  from assms(1) obtain d1 d2 d3 where
    m1: "merge_input_namespaces (DEFAULT_STIX_NAMESPACES_TUPLE e)
       (fix_example_namespace (seed_namespaces e) (input_namespaces s)) (seed_namespaces e) = Inr d1" and
    m2: "merge_no_alias (DEFAULT_STIX_NAMESPACES e)
       (case no_alias (collected_namespaces s) of None \<Rightarrow> [] | Some b \<Rightarrow> b) d1 = Inr d2" and
    m3: "merge_aliased (aliased (collected_namespaces s)) d2 = Inr d3" and
    m4: "merge_aliased d3 (invert_ns_dict ns_dict) = Inr fin"
    by (rule finalize_namespaces_InrD)
  from m1 assms(2) have "dict_get d1 p = Some v" by (rule merge_input_keeps)
  with m2 have "dict_get d2 p = Some v" by (rule merge_no_alias_keeps)
  with m3 have "dict_get d3 p = Some v" by (rule merge_aliased_keeps)
  then have "(p, v) \<in> set d3" by (rule dict_get_in_set)
  with m4 show ?thesis by (rule merge_aliased_binds)
qed

lemma baseline_prefixes:
  "p \<in> set [''xsi'', ''stix'', ''stixCommon'', ''stixVocabs'', ''cybox'', ''cyboxCommon'', ''cyboxVocabs'']
   \<Longrightarrow> \<exists>v. dict_get BASELINE_NAMESPACES p = Some v"
  by (auto simp: BASELINE_NAMESPACES_def dict_get_def)

lemma parse_init: "parse_collected_classes NamespaceInfo_init = (Inr (), NamespaceInfo_init)"
  by (simp add: parse_collected_classes_def NamespaceInfo_init_def)

lemma finalize_init_succeeds:
  "\<exists>warned s' fin. finalize e None None NamespaceInfo_init = (Inr warned, s')
      \<and> finalized_namespaces s' = Some fin
      \<and> dict_get fin (id_namespace_alias e) = Some (id_namespace e)"
proof -
  have "\<exists>r. merge_aliased (seed_namespaces e) [] = Inr r"
    by (rule merge_aliased_succeeds) (simp_all add: distinct_seed dict_get_def)
  then obtain r where r: "merge_aliased (seed_namespaces e) [] = Inr r" ..
  have fn: "finalize_namespaces e None NamespaceInfo_init
          = (Inr r, NamespaceInfo_init\<lparr>collected_namespaces := \<lparr>no_alias = None, aliased = []\<rparr>\<rparr>)"
    by (simp add: finalize_namespaces_def NamespaceInfo_init_def Let_def
          fix_example_namespace_def dict_get_def invert_ns_dict_def r)
  have "dict_get r (id_namespace_alias e) = Some (id_namespace e)"
    using fn seed_id by (rule seed_in_final)
  with fn show ?thesis
    by (simp add: finalize_def parse_init finalize_schemalocs_def Let_def split: prod.splits)
qed

section \<open>The claims\<close>

subsection \<open>C7: a second \<open>finalize\<close>\<close>





subsection \<open>C6: a prefix conflict publishes nothing\<close>

text \<open>The parsed sample entity makes \<open>finalize\<close> fail: the prefix \<open>example\<close> is seeded
  with the identifier namespace, and the parsed namespace has the trailing slash.\<close>

lemma sample_conflict:
  "fst (finalize example_env None None (collect NamespaceInfo_init sample_entity))
     = Inl (DuplicatePrefixError
              (duplicate_prefix_message ''example'' ''http://example.com/'' ''http://example.com'')
              ''example'' [''http://example.com''] ''http://example.com/'')"
  by code_simp

text \<open>
  C6. When \<open>finalize\<close> fails with \<open>DuplicatePrefixError\<close> on a registry whose two
  finalized maps are unset, both are still \<open>None\<close> after the call: the exception leaves
  \<open>finalize\<close> before either assignment.
\<close>

theorem finalize_conflict_publishes_nothing:
  assumes "finalize e ns_dict schemaloc_dict s = (Inl (DuplicatePrefixError msg p src dst), s')"
    and "finalized_namespaces s = None" and "finalized_schemalocs s = None"
  shows "finalized_namespaces s' = None \<and> finalized_schemalocs s' = None"
proof (cases "parse_collected_classes s")
  case (Pair r1 s1)
  note p1 = parse_collected_classes_finalized [OF Pair]
  show ?thesis
  proof (cases r1)
    case (Inl err)
    with Pair assms(1) have "s' = s1" by (simp add: finalize_def)
    with p1 assms(2,3) show ?thesis by simp
  next
    case (Inr u)
    obtain r2 s2 where fn: "finalize_namespaces e ns_dict s1 = (r2, s2)"
      by (cases "finalize_namespaces e ns_dict s1")
    note p2 = finalize_namespaces_finalized [OF fn]
    show ?thesis
    proof (cases r2)
      case (Inl err)
      with Pair Inr fn assms(1) have "s' = s2" by (simp add: finalize_def)
      with p1 p2 assms(2,3) show ?thesis by simp
    next
      case inr: (Inr fin)
      obtain locs warned where
        "finalize_schemalocs e schemaloc_dict (s2\<lparr>finalized_namespaces := Some fin\<rparr>) = Inr (locs, warned)"
        using finalize_schemalocs_total [of "s2\<lparr>finalized_namespaces := Some fin\<rparr>" fin e schemaloc_dict]
        by auto
      with Pair Inr fn inr assms(1) show ?thesis by (simp add: finalize_def)
    qed
  qed
qed

theorem finalize_conflict_publishes_nothing_witness:
  "fst (finalize example_env None None (collect NamespaceInfo_init sample_entity))
     = Inl (DuplicatePrefixError
              (duplicate_prefix_message ''example'' ''http://example.com/'' ''http://example.com'')
              ''example'' [''http://example.com''] ''http://example.com/'')
   \<and> finalized_namespaces (snd (finalize example_env None None (collect NamespaceInfo_init sample_entity))) = None
   \<and> finalized_schemalocs (snd (finalize example_env None None (collect NamespaceInfo_init sample_entity))) = None"
proof -
  let ?s = "collect NamespaceInfo_init sample_entity"
  have f: "finalize example_env None None ?s
      = (Inl (DuplicatePrefixError
              (duplicate_prefix_message ''example'' ''http://example.com/'' ''http://example.com'')
              ''example'' [''http://example.com''] ''http://example.com/''),
         snd (finalize example_env None None ?s))"
    using sample_conflict by (metis prod.collapse)
  have n: "finalized_namespaces ?s = None" "finalized_schemalocs ?s = None"
    by (simp_all add: collect_finalized NamespaceInfo_init_def)
  from finalize_conflict_publishes_nothing [OF f n] sample_conflict show ?thesis by simp
qed

subsection \<open>C4: the baseline prefixes and the identifier pair\<close>

text \<open>
  C4. Whatever the registry, the entities collected and the caller's dictionaries: when
  \<open>finalize\<close> returns normally, the finalized namespace map has every baseline prefix
  (\<open>xsi\<close>, \<open>stix\<close>, \<open>stixCommon\<close>, \<open>stixVocabs\<close>, \<open>cybox\<close>, \<open>cyboxCommon\<close>, \<open>cyboxVocabs\<close>)
  as a key and binds the identifier prefix to the identifier namespace. A baseline
  prefix other than the identifier prefix is bound to its baseline namespace.
\<close>

theorem baseline_and_identifier_present:
  assumes "finalize e ns_dict schemaloc_dict (collect_all s ents) = (Inr warned, s')"
  shows "\<exists>fin. finalized_namespaces s' = Some fin
           \<and> (\<forall>p \<in> set [''xsi'', ''stix'', ''stixCommon'', ''stixVocabs'',
                           ''cybox'', ''cyboxCommon'', ''cyboxVocabs''].
                 dict_has fin p
                 \<and> (p \<noteq> id_namespace_alias e \<longrightarrow> dict_get fin p = dict_get BASELINE_NAMESPACES p))
           \<and> dict_get fin (id_namespace_alias e) = Some (id_namespace e)"
proof -
  from assms obtain s1 fin s2 locs where
    ns: "finalize_namespaces e ns_dict s1 = (Inr fin, s2)" and
    s': "s' = s2\<lparr>finalized_namespaces := Some fin, finalized_schemalocs := Some locs\<rparr>"
    by (rule finalize_InrD)
  have ident: "dict_get fin (id_namespace_alias e) = Some (id_namespace e)"
    using ns seed_id by (rule seed_in_final)
  have base: "dict_has fin p \<and> (p \<noteq> id_namespace_alias e \<longrightarrow> dict_get fin p = dict_get BASELINE_NAMESPACES p)"
    if p: "p \<in> set [''xsi'', ''stix'', ''stixCommon'', ''stixVocabs'',
                      ''cybox'', ''cyboxCommon'', ''cyboxVocabs'']" for p
  proof (cases "p = id_namespace_alias e")
    case True
    with ident show ?thesis by (simp add: dict_has_get)
  next
    case False
    from p obtain v where v: "dict_get BASELINE_NAMESPACES p = Some v"
      using baseline_prefixes by blast
    with False have "dict_get (seed_namespaces e) p = Some v" by (simp add: seed_other)
    with ns have "dict_get fin p = Some v" by (rule seed_in_final)
    with v show ?thesis by (simp add: dict_has_get)
  qed
  from s' ident base show ?thesis by auto
qed

theorem baseline_and_identifier_present_witness:
  "\<exists>warned s' fin.
      finalize example_env (Some [(''urn:acme'', ''acme'')]) None
        (collect_all NamespaceInfo_init [indicator_entity]) = (Inr warned, s')
      \<and> finalized_namespaces s' = Some fin
      \<and> dict_has fin ''stix''
      \<and> dict_get fin ''cyboxVocabs'' = Some ''http://cybox.mitre.org/default_vocabularies-2''
      \<and> dict_get fin ''example'' = Some ''http://example.com''"
proof -
  let ?f = "finalize example_env (Some [(''urn:acme'', ''acme'')]) None
              (collect_all NamespaceInfo_init [indicator_entity])"
  have "\<not> isl (fst ?f)" by code_simp
  then obtain warned s' where f: "?f = (Inr warned, s')"
    by (cases ?f; cases "fst ?f") auto
  have b: "dict_get BASELINE_NAMESPACES ''cyboxVocabs'' = Some ''http://cybox.mitre.org/default_vocabularies-2''"
    by (simp add: BASELINE_NAMESPACES_def dict_get_def)
  from baseline_and_identifier_present [OF f] b f show ?thesis
    by (auto simp: example_env_def)
qed

subsection \<open>C10: the identifier pair is assigned without a check\<close>

text \<open>
  C10. When the identifier prefix is a baseline prefix and the identifier namespace is
  not the namespace of that baseline prefix, the seeded dictionary binds the prefix to
  the identifier namespace and no longer to the baseline namespace; nothing is raised
  for it: on a fresh registry \<open>finalize\<close> returns normally, and the finalized map has
  the identifier binding.
\<close>

theorem identifier_pair_seeded_unchecked:
  assumes "dict_get BASELINE_NAMESPACES (id_namespace_alias e) = Some base_ns"
    and "id_namespace e \<noteq> base_ns"
  shows "dict_get (seed_namespaces e) (id_namespace_alias e) = Some (id_namespace e)
         \<and> dict_get (seed_namespaces e) (id_namespace_alias e) \<noteq> Some base_ns
         \<and> (\<exists>warned s' fin. finalize e None None NamespaceInfo_init = (Inr warned, s')
               \<and> finalized_namespaces s' = Some fin
               \<and> dict_get fin (id_namespace_alias e) = Some (id_namespace e))"
  using assms(2) finalize_init_succeeds [of e] by (simp add: seed_id)

theorem identifier_pair_seeded_unchecked_witness:
  "dict_get BASELINE_NAMESPACES ''stix'' = Some ''http://stix.mitre.org/stix-1''
   \<and> dict_get (seed_namespaces clashing_env) ''stix'' = Some ''http://example.com''
   \<and> (\<exists>warned s' fin. finalize clashing_env None None NamespaceInfo_init = (Inr warned, s')
         \<and> finalized_namespaces s' = Some fin
         \<and> dict_get fin ''stix'' = Some ''http://example.com'')"
proof -
  have b: "dict_get BASELINE_NAMESPACES (id_namespace_alias clashing_env) = Some ''http://stix.mitre.org/stix-1''"
    by (simp add: BASELINE_NAMESPACES_def dict_get_def clashing_env_def)
  have n: "id_namespace clashing_env \<noteq> ''http://stix.mitre.org/stix-1''"
    by (simp add: clashing_env_def)
  from identifier_pair_seeded_unchecked [OF b n] b show ?thesis
    by (simp add: clashing_env_def)
qed

subsection \<open>C9: a namespace without a prefix that the default table does not know\<close>

text \<open>
  C9. A fresh registry collects one entity whose class is an entity class with a home
  namespace, no \<open>_XSI_NS\<close>, and an \<open>_XSI_TYPE\<close> that is missing or does not split into
  exactly two parts. If the default table has no prefix for the namespace, \<open>finalize\<close>
  fails with the \<open>KeyError\<close> of the unguarded lookup on line 216, whatever dictionaries
  the caller passes.
\<close>

theorem unaliased_lookup_raises_KeyError:
  assumes "is_entity k" and "klass_namespace k = Some ns" and "ns \<noteq> []"
    and "\<not> truthy (klass_XSI_NS k)"
    and "\<not> truthy (klass_XSI_TYPE k) \<or> length (split_colon (the (klass_XSI_TYPE k))) \<noteq> 2"
    and "dict_get (DEFAULT_STIX_NAMESPACES e) ns = None"
  shows "fst (finalize e ns_dict schemaloc_dict
                (collect NamespaceInfo_init
                   \<lparr>mro = [k], ent_input_namespaces = None, ent_input_schemalocations = None\<rparr>))
           = Inl (KeyError (Some ns))"
proof -
  let ?s = "collect NamespaceInfo_init
              \<lparr>mro = [k], ent_input_namespaces = None, ent_input_schemalocations = None\<rparr>"
  have s: "?s = NamespaceInfo_init\<lparr>collected_classes := [k]\<rparr>"
    by (simp add: collect_def NamespaceInfo_init_def set_add_def)
  have loop: "parse_loop [k] [] [] = ([ns], [])"
    using assms(2-5) by (auto simp: set_add_def Let_def)
  have parse: "parse_collected_classes ?s
      = (Inr (), ?s\<lparr>collected_namespaces := \<lparr>no_alias = Some [ns], aliased = []\<rparr>\<rparr>)"
    unfolding s using assms(1) loop
    by (simp add: parse_collected_classes_def NamespaceInfo_init_def)
  have "fst (finalize_namespaces e ns_dict
          (?s\<lparr>collected_namespaces := \<lparr>no_alias = Some [ns], aliased = []\<rparr>\<rparr>)) = Inl (KeyError (Some ns))"
    unfolding s using assms(6)
    by (simp add: finalize_namespaces_def NamespaceInfo_init_def Let_def
          fix_example_namespace_def dict_get_def)
  with parse show ?thesis by (rule finalize_propagates)
qed

theorem unaliased_lookup_raises_KeyError_witness:
  "fst (finalize example_env None None
          (collect NamespaceInfo_init
             \<lparr>mro = [unknown_klass], ent_input_namespaces = None, ent_input_schemalocations = None\<rparr>))
     = Inl (KeyError (Some ''urn:unknown''))"
proof -
  have d: "dict_get (DEFAULT_STIX_NAMESPACES example_env) ''urn:unknown'' = None" by code_simp
  show ?thesis
    by (rule unaliased_lookup_raises_KeyError [OF _ _ _ _ _ d])
       (simp_all add: unknown_klass_def)
qed

subsection \<open>C1: a checked binding that conflicts raises \<open>DuplicatePrefixError\<close>\<close>

text \<open>
  C1 as stated fails at the assignment of the identifier pair, which is part of the
  merge and is not checked: with the identifier namespace \<open>http://example.com\<close> under
  the prefix \<open>stix\<close>, the merge binds \<open>stix\<close>, already bound to
  \<open>http://stix.mitre.org/stix-1\<close>, to another namespace, and \<open>finalize\<close> returns
  normally with the new binding.
\<close>

theorem seeded_identifier_conflict_unreported:
  "dict_get (dict_of BASELINE_NAMESPACES) ''stix'' = Some ''http://stix.mitre.org/stix-1''
   \<and> id_namespace_alias clashing_env = ''stix''
   \<and> id_namespace clashing_env = ''http://example.com''
   \<and> \<not> isl (fst (finalize clashing_env None None NamespaceInfo_init))
   \<and> map_option (\<lambda>fin. dict_get fin ''stix'')
        (finalized_namespaces (snd (finalize clashing_env None None NamespaceInfo_init)))
       = Some (Some ''http://example.com'')"
  by code_simp

text \<open>
  C1, amended. When one of the four checked loops of the merge reaches a pair of prefix
  \<open>p\<close> and namespace \<open>ns\<close> while the dictionary it assigns into binds \<open>p\<close> to another
  namespace \<open>cur\<close>, \<open>finalize\<close> fails with \<open>DuplicatePrefixError\<close>, which reaches the
  caller and carries the prefix, the existing namespace (in the one-element tuple
  \<open>source_ns\<close>), the new namespace (\<open>dest_ns\<close>) and a message naming all three.
\<close>

theorem checked_conflict_raises:
  assumes "parse_collected_classes s = (Inr (), s1)"
    and "merge_attempt e ns_dict s1 d p ns"
    and "dict_get d p = Some cur" and "cur \<noteq> ns"
  shows "fst (finalize e ns_dict schemaloc_dict s)
           = Inl (DuplicatePrefixError (duplicate_prefix_message p ns cur) p [cur] ns)"
  using assms(1) merge_attempt_conflict [OF assms(2-4)] by (rule finalize_propagates)

theorem checked_conflict_raises_witness:
  "fst (finalize example_env (Some [(''urn:two'', ''x'')]) None (collect NamespaceInfo_init vendor_entity))
     = Inl (DuplicatePrefixError (duplicate_prefix_message ''x'' ''urn:one'' ''urn:two'')
              ''x'' [''urn:two''] ''urn:one'')"
proof -
  let ?s = "collect NamespaceInfo_init vendor_entity"
  let ?s1 = "?s\<lparr>collected_namespaces := \<lparr>no_alias = Some [], aliased = [(''x'', ''urn:one'')]\<rparr>\<rparr>"
  let ?seed = "seed_namespaces example_env"
  have parse: "parse_collected_classes ?s = (Inr (), ?s1)" by code_simp
  have inp: "input_namespaces ?s1 = []" and bucket: "no_alias (collected_namespaces ?s1) = Some []"
    and al: "aliased (collected_namespaces ?s1) = [(''x'', ''urn:one'')]"
    by (simp_all add: collect_def vendor_entity_def NamespaceInfo_init_def)
  have m1: "merge_input_namespaces (DEFAULT_STIX_NAMESPACES_TUPLE example_env)
              (fix_example_namespace ?seed (input_namespaces ?s1)) ?seed = Inr ?seed"
    by (simp add: inp fix_example_namespace_def dict_get_def)
  have m2: "merge_no_alias (DEFAULT_STIX_NAMESPACES example_env)
              (case no_alias (collected_namespaces ?s1) of None \<Rightarrow> [] | Some b \<Rightarrow> b) ?seed = Inr ?seed"
    by (simp add: bucket)
  have m3: "merge_aliased (aliased (collected_namespaces ?s1)) ?seed = Inr (?seed @ [(''x'', ''urn:one'')])"
    unfolding al by code_simp
  have m4: "merge_aliased ?seed (invert_ns_dict (Some [(''urn:two'', ''x'')]))
              = Inr ((''x'', ''urn:two'') # ?seed)"
    by code_simp
  have att: "merge_attempt example_env (Some [(''urn:two'', ''x'')]) ?s1
               ((''x'', ''urn:two'') # ?seed) ''x'' ''urn:one''"
    by (rule at_overlay [OF m1 m2 m3 _ m4]) simp
  have cur: "dict_get ((''x'', ''urn:two'') # ?seed) ''x'' = Some ''urn:two''"
    by (simp add: dict_get_def)
  show ?thesis
    by (rule checked_conflict_raises [OF parse att cur]) simp
qed

subsection \<open>C3: the example namespace with the trailing slash\<close>

text \<open>
  C3 does not hold of the code. \<open>_fix_example_namespace\<close> looks both dictionaries up by
  namespace, but the dictionary seeded on lines 190 and 191 is keyed by prefix, and so is
  \<open>_input_namespaces\<close> as the loop of line 200 reads it; its second test is never true
  for the identifier pair, and nothing is deleted. With the identifier namespace
  \<open>http://example.com\<close> under \<open>example\<close>, a parsed entity that declares \<open>example\<close> for
  \<open>http://example.com/\<close> makes \<open>finalize\<close> fail with \<open>DuplicatePrefixError\<close>; and when
  the parsed dictionary is keyed by namespace, as the fix reads it, the entry stays too
  and ends in the finalized map with the namespace as its key.
\<close>

theorem example_fix_never_applies:
  "fix_example_namespace (seed_namespaces example_env) [(''example'', ''http://example.com/'')]
     = [(''example'', ''http://example.com/'')]
   \<and> fst (finalize example_env None None (collect NamespaceInfo_init sample_entity))
     = Inl (DuplicatePrefixError
              (duplicate_prefix_message ''example'' ''http://example.com/'' ''http://example.com'')
              ''example'' [''http://example.com''] ''http://example.com/'')
   \<and> fix_example_namespace (seed_namespaces example_env) [(''http://example.com/'', ''example'')]
     = [(''http://example.com/'', ''example'')]
   \<and> map_option (\<lambda>fin. dict_get fin ''http://example.com/'')
        (finalized_namespaces (snd (finalize example_env None None
           (NamespaceInfo_init\<lparr>input_namespaces := [(''http://example.com/'', ''example'')]\<rparr>))))
     = Some (Some ''example'')"
  by code_simp

subsection \<open>C2: default schema locations\<close>

text \<open>
  C2 does not hold of the code. The dictionary \<open>_finalize_namespaces\<close> returns is keyed
  by prefix, and the loop of line 267 takes its keys for namespaces: a prefix is not in
  the default schema-location table, so the default is not applied. On a fresh registry
  with a caller's location for \<open>http://stix.mitre.org/stix-1\<close>, a namespace of the
  default table that the finalized map holds under \<open>stix\<close>, the finalized schema
  locations keep the caller's value.
\<close>

theorem default_schemaloc_not_applied:
  "dict_get (DEFAULT_STIX_SCHEMALOCATIONS example_env) ''http://stix.mitre.org/stix-1''
     = Some ''http://stix.mitre.org/XMLSchema/core/1.1.1/stix_core.xsd''
   \<and> map_option (\<lambda>fin. dict_get fin ''stix'')
        (finalized_namespaces (snd (finalize example_env None
           (Some [(''http://stix.mitre.org/stix-1'', ''http://example.com/my_core.xsd'')])
           NamespaceInfo_init)))
     = Some (Some ''http://stix.mitre.org/stix-1'')
   \<and> finalized_schemalocs (snd (finalize example_env None
           (Some [(''http://stix.mitre.org/stix-1'', ''http://example.com/my_core.xsd'')])
           NamespaceInfo_init))
     = Some [(''http://stix.mitre.org/stix-1'', ''http://example.com/my_core.xsd'')]"
  by code_simp

subsection \<open>C5: merging two registries\<close>

text \<open>
  C5 does not hold of the code. \<open>update\<close> leaves \<open>_collected_classes\<close> alone, so the
  classes the other registry has visited are lost, and \<open>dict.update\<close> on
  \<open>_collected_namespaces\<close> replaces the set under the key \<open>None\<close> by the other
  registry's set instead of uniting the two.
\<close>

theorem update_leaves_collected_classes:
  "collected_classes (collect NamespaceInfo_init indicator_entity) = [indicator_klass]
   \<and> collected_classes
        (NamespaceInfo_update (collect NamespaceInfo_init vendor_entity)
           (collect NamespaceInfo_init indicator_entity)) = [vendor_klass]
   \<and> no_alias (collected_namespaces
        (NamespaceInfo_update
           (NamespaceInfo_init\<lparr>collected_namespaces := \<lparr>no_alias = Some [''urn:a''], aliased = []\<rparr>\<rparr>)
           (NamespaceInfo_init\<lparr>collected_namespaces := \<lparr>no_alias = Some [''urn:b''], aliased = []\<rparr>\<rparr>)))
     = Some [''urn:b'']"
  by (simp add: collect_def NamespaceInfo_update_def NamespaceInfo_init_def set_add_def
        indicator_entity_def vendor_entity_def)

subsection \<open>C8: the rendered prefix declarations\<close>

text \<open>
  C8 does not hold of the code for a finalized map. \<open>get_xmlns_str\<close> reads its
  dictionary as namespace to prefix, and \<open>finalize\<close> leaves a dictionary from prefix to
  namespace: each line of the finalized map of a fresh registry has the namespace before
  the equals sign and the prefix in the quotes, and the lines are ordered by prefix. For
  a dictionary keyed by namespace the rendering is the claimed one.
\<close>

theorem xmlns_str_of_finalized_map:
  "map_option get_xmlns_str
     (finalized_namespaces (snd (finalize example_env None None NamespaceInfo_init)))
     = Some (join [CHR 0x0A, CHR 0x09]
          [''xmlns:http://cybox.mitre.org/cybox-2='' @ [CHR 0x22] @ ''cybox'' @ [CHR 0x22],
           ''xmlns:http://cybox.mitre.org/common-2='' @ [CHR 0x22] @ ''cyboxCommon'' @ [CHR 0x22],
           ''xmlns:http://cybox.mitre.org/default_vocabularies-2='' @ [CHR 0x22] @ ''cyboxVocabs'' @ [CHR 0x22],
           ''xmlns:http://example.com='' @ [CHR 0x22] @ ''example'' @ [CHR 0x22],
           ''xmlns:http://stix.mitre.org/stix-1='' @ [CHR 0x22] @ ''stix'' @ [CHR 0x22],
           ''xmlns:http://stix.mitre.org/common-1='' @ [CHR 0x22] @ ''stixCommon'' @ [CHR 0x22],
           ''xmlns:http://stix.mitre.org/default_vocabularies-1='' @ [CHR 0x22] @ ''stixVocabs'' @ [CHR 0x22],
           ''xmlns:http://www.w3.org/2001/XMLSchema-instance='' @ [CHR 0x22] @ ''xsi'' @ [CHR 0x22]])
   \<and> get_xmlns_str [(''http://stix.mitre.org/stix-1'', ''stix''),
                     (''http://cybox.mitre.org/cybox-2'', ''cybox'')]
     = ''xmlns:cybox='' @ [CHR 0x22] @ ''http://cybox.mitre.org/cybox-2'' @ [CHR 0x22]
         @ [CHR 0x0A, CHR 0x09]
         @ ''xmlns:stix='' @ [CHR 0x22] @ ''http://stix.mitre.org/stix-1'' @ [CHR 0x22]"
  by code_simp

end
